theory Spec2Isabelle
  imports Main "HOL-Library.AList" "HOL-Library.Sublist"
begin

section \<open>Data model\<close>

text \<open>
  The secure configuration manager of \<^verbatim>\<open>config_manager.py\<close> and the setup-data
  validator that accompanies it.

  Python values that can occur in a configuration mapping. The mappings come from
  \<^verbatim>\<open>request.get_json()\<close> and from \<^verbatim>\<open>json.loads\<close>, so they are JSON
  values: \<^verbatim>\<open>None\<close>, booleans, integers, strings, lists and dictionaries with
  string keys. A dictionary keeps its insertion order, so it is an association list;
  \<^verbatim>\<open>dict.get\<close> reads it with \<open>map_of\<close>. Floating-point numbers are left out.
\<close>

datatype pyval =
    PNone
  | PBool bool
  | PInt int
  | PStr string
  | PList "pyval list"
  | PDict "(string \<times> pyval) list"

type_synonym pydict = "(string \<times> pyval) list"

type_synonym bytes = string

type_synonym path = string

text \<open>
  The exceptions that leave the functions of the module. \<open>OSError\<close> stands for the
  filesystem errors raised by \<^verbatim>\<open>open\<close>, \<^verbatim>\<open>unlink\<close> and
  \<^verbatim>\<open>exists\<close> (\<^verbatim>\<open>PermissionError\<close>, \<^verbatim>\<open>FileNotFoundError\<close>),
  \<open>ValueError\<close> for
  the one \<^verbatim>\<open>load_config\<close> raises and the one the \<^verbatim>\<open>Fernet\<close> constructor
  raises on a malformed key, \<open>AttributeError\<close> for a method looked up on a value
  that has none of that name.
\<close>

datatype error = OSError | ValueError | AttributeError

text \<open>Python truthiness: what \<^verbatim>\<open>not x\<close> and \<^verbatim>\<open>x or y\<close> test.\<close>

fun truthy :: "pyval \<Rightarrow> bool" where
  "truthy PNone = False"
| "truthy (PBool b) = b"
| "truthy (PInt i) = (i \<noteq> 0)"
| "truthy (PStr s) = (s \<noteq> [])"
| "truthy (PList xs) = (xs \<noteq> [])"
| "truthy (PDict d) = (d \<noteq> [])"

text \<open>\<^verbatim>\<open>data.get(key)\<close>: the value stored under the key, \<^verbatim>\<open>None\<close> when absent.\<close>

definition dict_get :: "pydict \<Rightarrow> string \<Rightarrow> pyval" where
  "dict_get data key = (case map_of data key of None \<Rightarrow> PNone | Some v \<Rightarrow> v)"

text \<open>
  \<^verbatim>\<open>value.startswith(prefix)\<close>: defined on strings; every other JSON value has no
  such method and the lookup raises \<^verbatim>\<open>AttributeError\<close>.
\<close>

fun startswith :: "pyval \<Rightarrow> string \<Rightarrow> error + bool" where
  "startswith (PStr s) p = Inr (prefix p s)"
| "startswith _ p = Inl AttributeError"

section \<open>The setup-data validator\<close>

text \<open>
  \<^verbatim>\<open>data.get(key) and not data[key].startswith(prefix)\<close>: the conjunction is
  evaluated left to right, so \<^verbatim>\<open>startswith\<close> is looked up only on a truthy value.
\<close>

definition bad_format :: "pydict \<Rightarrow> string \<Rightarrow> string \<Rightarrow> error + bool" where
  "bad_format data key p =
     (if truthy (dict_get data key)
      then (case startswith (dict_get data key) p of
              Inl e \<Rightarrow> Inl e
            | Inr b \<Rightarrow> Inr (\<not> b))
      else Inr False)"

definition validate_setup_data :: "pydict \<Rightarrow> error + (bool \<times> string option)" where
  "validate_setup_data data =
     (if \<not> truthy (dict_get data ''llm_provider'')
      then Inr (False, Some ''LLM provider is required'')
      else if dict_get data ''llm_provider'' = PStr ''groq''
              \<and> \<not> truthy (dict_get data ''groq_api_key'')
      then Inr (False, Some ''Groq API key is required when using Groq'')
      else if dict_get data ''llm_provider'' = PStr ''openai''
              \<and> \<not> truthy (dict_get data ''openai_api_key'')
      then Inr (False, Some ''OpenAI API key is required when using OpenAI'')
      else if \<not> truthy (dict_get data ''openai_api_key'')
      then Inr (False, Some ''OpenAI API key is required for embeddings'')
      else (case bad_format data ''openai_api_key'' ''sk-'' of
              Inl e \<Rightarrow> Inl e
            | Inr True \<Rightarrow>
                Inr (False,
                  Some ''OpenAI API key format appears invalid (should start with 'sk-')'')
            | Inr False \<Rightarrow>
                (case bad_format data ''groq_api_key'' ''gsk_'' of
                   Inl e \<Rightarrow> Inl e
                 | Inr True \<Rightarrow>
                     Inr (False,
                       Some ''Groq API key format appears invalid (should start with 'gsk_')'')
                 | Inr False \<Rightarrow> Inr (True, None))))"

text \<open>
  The six checks of the validator taken one by one, each read off its own
  \<^verbatim>\<open>if\<close> statement: \<open>None\<close> when the check passes, the message when it fails.
  They are stated for mappings whose API-key fields hold strings, where
  \<^verbatim>\<open>startswith\<close> is defined.
\<close>

definition str_prefix :: "pyval \<Rightarrow> string \<Rightarrow> bool" where
  "str_prefix v p = (case v of PStr s \<Rightarrow> prefix p s | _ \<Rightarrow> False)"

definition rules :: "(pydict \<Rightarrow> string option) list" where
  "rules =
    [\<lambda>data. if \<not> truthy (dict_get data ''llm_provider'')
            then Some ''LLM provider is required'' else None,
     \<lambda>data. if dict_get data ''llm_provider'' = PStr ''groq''
               \<and> \<not> truthy (dict_get data ''groq_api_key'')
            then Some ''Groq API key is required when using Groq'' else None,
     \<lambda>data. if dict_get data ''llm_provider'' = PStr ''openai''
               \<and> \<not> truthy (dict_get data ''openai_api_key'')
            then Some ''OpenAI API key is required when using OpenAI'' else None,
     \<lambda>data. if \<not> truthy (dict_get data ''openai_api_key'')
            then Some ''OpenAI API key is required for embeddings'' else None,
     \<lambda>data. if truthy (dict_get data ''openai_api_key'')
               \<and> \<not> str_prefix (dict_get data ''openai_api_key'') ''sk-''
            then Some ''OpenAI API key format appears invalid (should start with 'sk-')''
            else None,
     \<lambda>data. if truthy (dict_get data ''groq_api_key'')
               \<and> \<not> str_prefix (dict_get data ''groq_api_key'') ''gsk_''
            then Some ''Groq API key format appears invalid (should start with 'gsk_')''
            else None]"

text \<open>The first failing rule of a list decides; no failing rule means valid.\<close>

fun first_failure :: "(pydict \<Rightarrow> string option) list \<Rightarrow> pydict \<Rightarrow> bool \<times> string option" where
  "first_failure [] data = (True, None)"
| "first_failure (r # rs) data =
     (case r data of Some msg \<Rightarrow> (False, Some msg) | None \<Rightarrow> first_failure rs data)"

text \<open>A field is string-typed when it is absent, falsy or a string.\<close>

definition str_field :: "pydict \<Rightarrow> string \<Rightarrow> bool" where
  "str_field data key =
     (case dict_get data key of PStr s \<Rightarrow> True | v \<Rightarrow> \<not> truthy v)"

section \<open>The environment of the manager\<close>

text \<open>
  The filesystem as the manager sees it: the regular files by path, and the paths on
  which the operating system refuses to open a file for reading, to open it for
  writing, or to unlink it. \<open>no_stat\<close> holds the paths that cannot be resolved (a
  directory on the way is not searchable): \<^verbatim>\<open>stat\<close> is refused on them with
  \<^verbatim>\<open>PermissionError\<close>, and so is every other call.
  \<open>entropy\<close> counts the draws from the system's random
  source, which \<^verbatim>\<open>Fernet.generate_key\<close> and \<^verbatim>\<open>Fernet.encrypt\<close> read.
  The mode bits set by \<^verbatim>\<open>os.chmod\<close> are not part of the state: the source
  ignores every failure of that call and no operation reads the bits back.
\<close>

record world =
  files :: "path \<rightharpoonup> bytes"
  no_stat :: "path set"
  no_read :: "path set"
  no_write :: "path set"
  no_unlink :: "path set"
  entropy :: nat

text \<open>
  The two libraries the module calls, as parameters: \<^verbatim>\<open>cryptography.fernet\<close>
  and \<^verbatim>\<open>json\<close>. A \<^verbatim>\<open>Fernet\<close> object is represented by the key it was
  built from. \<open>fernet_key_ok\<close> tells whether the constructor accepts a key (it raises
  \<^verbatim>\<open>ValueError\<close> otherwise); \<open>decrypt\<close> is \<open>None\<close> where the library raises
  \<^verbatim>\<open>InvalidToken\<close>. \<open>json_dumps\<close> is
  \<^verbatim>\<open>json.dumps(config, indent=2).encode('utf-8')\<close> and \<open>json_loads\<close> is
  \<^verbatim>\<open>json.loads(decrypted.decode('utf-8'))\<close>, \<open>None\<close> where decoding or
  parsing raises.
\<close>

record libs =
  generate_key :: "nat \<Rightarrow> bytes"
  fernet_key_ok :: "bytes \<Rightarrow> bool"
  encrypt :: "bytes \<Rightarrow> nat \<Rightarrow> bytes \<Rightarrow> bytes"
  decrypt :: "bytes \<Rightarrow> bytes \<Rightarrow> bytes option"
  json_dumps :: "pyval \<Rightarrow> bytes"
  json_loads :: "bytes \<Rightarrow> pyval option"

text \<open>
  \<^verbatim>\<open>Path.exists()\<close>: false for a missing file; a refused \<^verbatim>\<open>stat\<close> is not
  among the errors it turns into \<^verbatim>\<open>False\<close>, so it raises.
\<close>

definition path_exists :: "world \<Rightarrow> path \<Rightarrow> error + bool" where
  "path_exists w p = (if p \<in> no_stat w then Inl OSError else Inr (files w p \<noteq> None))"

text \<open>\<^verbatim>\<open>open(p, 'rb').read()\<close>\<close>

definition read_file :: "world \<Rightarrow> path \<Rightarrow> error + bytes" where
  "read_file w p =
     (case files w p of
        None \<Rightarrow> Inl OSError
      | Some content \<Rightarrow>
          if p \<in> no_stat w \<or> p \<in> no_read w then Inl OSError else Inr content)"

text \<open>\<^verbatim>\<open>open(p, 'wb').write(content)\<close>: creates or replaces the file.\<close>

definition write_file :: "world \<Rightarrow> path \<Rightarrow> bytes \<Rightarrow> error + world" where
  "write_file w p content =
     (if p \<in> no_stat w \<or> p \<in> no_write w then Inl OSError
      else Inr (w\<lparr>files := (files w)(p \<mapsto> content)\<rparr>))"

text \<open>\<^verbatim>\<open>Path.unlink()\<close>\<close>

definition unlink :: "world \<Rightarrow> path \<Rightarrow> error + world" where
  "unlink w p =
     (if files w p = None \<or> p \<in> no_stat w \<or> p \<in> no_unlink w then Inl OSError
      else Inr (w\<lparr>files := (files w)(p := None)\<rparr>))"

text \<open>One draw from the random source.\<close>

definition urandom :: "world \<Rightarrow> nat \<times> world" where
  "urandom w = (entropy w, w\<lparr>entropy := Suc (entropy w)\<rparr>)"

section \<open>SecureConfigManager\<close>

text \<open>
  The object: its two paths and \<^verbatim>\<open>_cipher\<close>, the Fernet object built on first
  use and kept for the lifetime of the instance (\<open>None\<close> until then).
\<close>

record manager =
  config_file :: path
  master_key_file :: path
  cipher :: "bytes option"

text \<open>\<^verbatim>\<open>__init__\<close>\<close>

definition SecureConfigManager :: "path \<Rightarrow> path \<Rightarrow> manager" where
  "SecureConfigManager cf kf =
     \<lparr>config_file = cf, master_key_file = kf, cipher = None\<rparr>"

text \<open>
  \<^verbatim>\<open>is_configured\<close>: \<^verbatim>\<open>and\<close> looks at the key file only when the config
  file exists.
\<close>

definition is_configured :: "manager \<Rightarrow> world \<Rightarrow> error + bool" where
  "is_configured mgr w =
     (case path_exists w (config_file mgr) of
        Inl e \<Rightarrow> Inl e
      | Inr False \<Rightarrow> Inr False
      | Inr True \<Rightarrow> path_exists w (master_key_file mgr))"

text \<open>\<^verbatim>\<open>_get_or_create_master_key\<close>\<close>

definition get_or_create_master_key :: "libs \<Rightarrow> manager \<Rightarrow> world \<Rightarrow> (error + bytes) \<times> world" where
  "get_or_create_master_key L mgr w =
     (case path_exists w (master_key_file mgr) of
        Inl e \<Rightarrow> (Inl e, w)
      | Inr True \<Rightarrow> (read_file w (master_key_file mgr), w)
      | Inr False \<Rightarrow>
          (let (r, w1) = urandom w;
               key = generate_key L r
           in case write_file w1 (master_key_file mgr) key of
                Inl e \<Rightarrow> (Inl e, w1)
              | Inr w2 \<Rightarrow> (Inr key, w2)))"

text \<open>\<^verbatim>\<open>_get_cipher\<close>\<close>

definition get_cipher :: "libs \<Rightarrow> manager \<Rightarrow> world \<Rightarrow> (error + bytes) \<times> manager \<times> world" where
  "get_cipher L mgr w =
     (case cipher mgr of
        Some c \<Rightarrow> (Inr c, mgr, w)
      | None \<Rightarrow>
          (case get_or_create_master_key L mgr w of
             (Inl e, w1) \<Rightarrow> (Inl e, mgr, w1)
           | (Inr key, w1) \<Rightarrow>
               if fernet_key_ok L key
               then (Inr key, mgr\<lparr>cipher := Some key\<rparr>, w1)
               else (Inl ValueError, mgr, w1)))"

definition save_config :: "libs \<Rightarrow> manager \<Rightarrow> world \<Rightarrow> pyval \<Rightarrow> (error + unit) \<times> manager \<times> world" where
  "save_config L mgr w config =
     (case get_cipher L mgr w of
        (Inl e, mgr1, w1) \<Rightarrow> (Inl e, mgr1, w1)
      | (Inr c, mgr1, w1) \<Rightarrow>
          (let config_json = json_dumps L config;
               (r, w2) = urandom w1;
               encrypted = encrypt L c r config_json
           in case write_file w2 (config_file mgr1) encrypted of
                Inl e \<Rightarrow> (Inl e, mgr1, w2)
              | Inr w3 \<Rightarrow> (Inr (), mgr1, w3)))"

text \<open>
  \<^verbatim>\<open>load_config\<close>: \<open>Inr None\<close> is the \<^verbatim>\<open>None\<close> it returns when not
  configured. The call of \<^verbatim>\<open>is_configured\<close> stands before the \<^verbatim>\<open>try\<close>
  block, so what it raises reaches the caller as it is; every exception raised inside
  the block is replaced by \<^verbatim>\<open>ValueError\<close>.
\<close>

definition load_config :: "libs \<Rightarrow> manager \<Rightarrow> world \<Rightarrow> (error + pyval option) \<times> manager \<times> world" where
  "load_config L mgr w =
     (case is_configured mgr w of
        Inl e \<Rightarrow> (Inl e, mgr, w)
      | Inr False \<Rightarrow> (Inr None, mgr, w)
      | Inr True \<Rightarrow>
        (case get_cipher L mgr w of
           (Inl e, mgr1, w1) \<Rightarrow> (Inl ValueError, mgr1, w1)
         | (Inr c, mgr1, w1) \<Rightarrow>
             (case read_file w1 (config_file mgr1) of
                Inl e \<Rightarrow> (Inl ValueError, mgr1, w1)
              | Inr encrypted \<Rightarrow>
                  (case decrypt L c encrypted of
                     None \<Rightarrow> (Inl ValueError, mgr1, w1)
                   | Some decrypted \<Rightarrow>
                       (case json_loads L decrypted of
                          None \<Rightarrow> (Inl ValueError, mgr1, w1)
                        | Some config \<Rightarrow> (Inr (Some config), mgr1, w1))))))"

text \<open>
  \<^verbatim>\<open>current.update(updates)\<close>: the items of \<open>updates\<close> are stored in their order; a
  key already present keeps its place, a new key goes to the end.
\<close>

definition dict_update :: "pydict \<Rightarrow> pydict \<Rightarrow> pydict" where
  "dict_update current updates = fold (\<lambda>(k, v). AList.update k v) updates current"

text \<open>
  \<^verbatim>\<open>update_config\<close>: \<^verbatim>\<open>self.load_config() or {}\<close> replaces every falsy result
  by the empty dictionary; \<^verbatim>\<open>update\<close> is a method of dictionaries only.
\<close>

definition update_config :: "libs \<Rightarrow> manager \<Rightarrow> world \<Rightarrow> pydict \<Rightarrow> (error + unit) \<times> manager \<times> world" where
  "update_config L mgr w updates =
     (case load_config L mgr w of
        (Inl e, mgr1, w1) \<Rightarrow> (Inl e, mgr1, w1)
      | (Inr loaded, mgr1, w1) \<Rightarrow>
          (let current = (case loaded of
                            None \<Rightarrow> PDict []
                          | Some v \<Rightarrow> if truthy v then v else PDict [])
           in case current of
                PDict d \<Rightarrow> save_config L mgr1 w1 (PDict (dict_update d updates))
              | _ \<Rightarrow> (Inl AttributeError, mgr1, w1)))"

definition delete_config :: "manager \<Rightarrow> world \<Rightarrow> (error + unit) \<times> manager \<times> world" where
  "delete_config mgr w =
     (case (case path_exists w (config_file mgr) of
              Inl e \<Rightarrow> Inl e
            | Inr True \<Rightarrow> unlink w (config_file mgr)
            | Inr False \<Rightarrow> Inr w) of
        Inl e \<Rightarrow> (Inl e, mgr, w)
      | Inr w1 \<Rightarrow>
          (case (case path_exists w1 (master_key_file mgr) of
                   Inl e \<Rightarrow> Inl e
                 | Inr True \<Rightarrow> unlink w1 (master_key_file mgr)
                 | Inr False \<Rightarrow> Inr w1) of
             Inl e \<Rightarrow> (Inl e, mgr, w1)
           | Inr w2 \<Rightarrow> (Inr (), mgr, w2)))"

section \<open>What a stored blob holds\<close>

text \<open>
  The key \<^verbatim>\<open>load_config\<close> decrypts with: the key of the cached cipher, or else the
  content of the key file.
\<close>

definition key_in_use :: "manager \<Rightarrow> world \<Rightarrow> bytes option" where
  "key_in_use mgr w =
     (case cipher mgr of Some c \<Rightarrow> Some c | None \<Rightarrow> files w (master_key_file mgr))"

text \<open>
  The mapping held by the config file: its content decrypted under the key in use and
  parsed; \<open>None\<close> when a file is missing, when decryption fails or when parsing fails.
\<close>

definition stored_config :: "libs \<Rightarrow> manager \<Rightarrow> world \<Rightarrow> pyval option" where
  "stored_config L mgr w =
     (case key_in_use mgr w of
        None \<Rightarrow> None
      | Some k \<Rightarrow>
          (case files w (config_file mgr) of
             None \<Rightarrow> None
           | Some blob \<Rightarrow>
               (case decrypt L k blob of
                  None \<Rightarrow> None
                | Some plain \<Rightarrow> json_loads L plain)))"

section \<open>An instance of the libraries and some states\<close>

text \<open>
  A small instance of the two libraries, on which the operations can be evaluated. Keys
  start with \<open>key\<close>; a token is the key, a bar and the plaintext, so a token is accepted
  only under the key that made it. The JSON codec knows the four documents of
  \<open>demo_documents\<close>.
\<close>

definition demo_documents :: "(pyval \<times> bytes) list" where
  "demo_documents =
     [(PDict [], ''{}''),
      (PDict [(''a'', PInt 1)], ''{a: 1}''),
      (PDict [(''b'', PInt 2)], ''{b: 2}''),
      (PDict [(''a'', PInt 1), (''b'', PInt 2)], ''{a: 1, b: 2}'')]"

definition demo_libs :: libs where
  "demo_libs =
     \<lparr>generate_key = (\<lambda>r. ''key'' @ replicate r CHR ''+''),
      fernet_key_ok = (\<lambda>k. prefix ''key'' k),
      encrypt = (\<lambda>k r p. k @ ''|'' @ p),
      decrypt = (\<lambda>k t. if prefix (k @ ''|'') t then Some (drop (length k + 1) t) else None),
      json_dumps = (\<lambda>v. case map_of demo_documents v of Some s \<Rightarrow> s | None \<Rightarrow> ''null''),
      json_loads = (\<lambda>s. map_of (map (\<lambda>(v, s). (s, v)) demo_documents) s)\<rparr>"

text \<open>A manager as \<^verbatim>\<open>SecureConfigManager()\<close> constructs it, with the default paths.\<close>

definition demo_manager :: manager where
  "demo_manager = SecureConfigManager ''config.encrypted'' ''.master_key''"

text \<open>No file, nothing refused.\<close>

definition empty_world :: world where
  "empty_world =
     \<lparr>files = Map.empty, no_stat = {}, no_read = {}, no_write = {}, no_unlink = {},
      entropy = 0\<rparr>"

text \<open>Both files present, the blob made under the key of the key file.\<close>

definition saved_world :: world where
  "saved_world =
     empty_world\<lparr>files := [''config.encrypted'' \<mapsto> ''key|{a: 1}'', ''.master_key'' \<mapsto> ''key'']\<rparr>"

text \<open>The same with one byte of the blob altered.\<close>

definition tampered_world :: world where
  "tampered_world =
     empty_world\<lparr>files := [''config.encrypted'' \<mapsto> ''kez|{a: 1}'', ''.master_key'' \<mapsto> ''key'']\<rparr>"

text \<open>Only the config file present.\<close>

definition partial_world :: world where
  "partial_world = empty_world\<lparr>files := [''config.encrypted'' \<mapsto> ''key|{}'']\<rparr>"

text \<open>Both files present, the system refusing to open the config file for reading.\<close>

definition unreadable_world :: world where
  "unreadable_world = saved_world\<lparr>no_read := {''config.encrypted''}\<rparr>"

text \<open>Both files present, the config file neither writable nor removable.\<close>

definition readonly_world :: world where
  "readonly_world =
     saved_world\<lparr>no_write := {''config.encrypted''}, no_unlink := {''config.encrypted''}\<rparr>"

text \<open>Both files present in a directory that cannot be searched.\<close>

definition unsearchable_world :: world where
  "unsearchable_world = saved_world\<lparr>no_stat := {''config.encrypted'', ''.master_key''}\<rparr>"

text \<open>
  A reset: on a new manager and an empty filesystem, \<^verbatim>\<open>save_config({})\<close> followed by
  \<^verbatim>\<open>delete_config()\<close>, as the routes \<^verbatim>\<open>/setup\<close> and
  \<^verbatim>\<open>/reset-config\<close> of \<^verbatim>\<open>app.py\<close> call them on the one global manager.
\<close>

definition after_reset :: "(error + unit) \<times> manager \<times> world" where
  "after_reset =
     (case save_config demo_libs demo_manager empty_world (PDict []) of
        (r, mgr1, w1) \<Rightarrow> delete_config mgr1 w1)"

section \<open>What is asked of the libraries\<close>

text \<open>Decryption under the key that made a token gives the plaintext back.\<close>

definition fernet_correct :: "libs \<Rightarrow> bool" where
  "fernet_correct L =
     (\<forall>k r p. fernet_key_ok L k \<longrightarrow> decrypt L k (encrypt L k r p) = Some p)"

text \<open>A cached cipher was built by the constructor, so from a key it accepts.\<close>

definition cache_valid :: "libs \<Rightarrow> manager \<Rightarrow> bool" where
  "cache_valid L mgr = (case cipher mgr of None \<Rightarrow> True | Some k \<Rightarrow> fernet_key_ok L k)"

lemmas mgr_defs = save_config_def load_config_def get_cipher_def get_or_create_master_key_def
  delete_config_def update_config_def is_configured_def path_exists_def read_file_def
  write_file_def unlink_def urandom_def bool.case_eq_if

lemmas demo_defs = demo_libs_def demo_manager_def SecureConfigManager_def empty_world_def
  saved_world_def tampered_world_def partial_world_def demo_documents_def
  unreadable_world_def readonly_world_def unsearchable_world_def

section \<open>Properties of the validator\<close>

lemma bad_format_str:
  "str_field data key \<Longrightarrow>
   bad_format data key p = Inr (truthy (dict_get data key) \<and> \<not> str_prefix (dict_get data key) p)"
  by (cases "dict_get data key") (simp_all add: bad_format_def str_field_def str_prefix_def)

text \<open>
  On a mapping whose API-key fields are strings the validator returns the verdict of
  the first failing one of its six rules, taken in the order of the source.
\<close>

lemma validate_first_failure:
  "str_field data ''openai_api_key'' \<Longrightarrow> str_field data ''groq_api_key'' \<Longrightarrow>
   validate_setup_data data = Inr (first_failure rules data)"
  by (simp add: validate_setup_data_def rules_def bad_format_str split: bool.splits)

text \<open>The four scenarios of the specification.\<close>

lemma validate_empty:
  "validate_setup_data [] = Inr (False, Some ''LLM provider is required'')"
  by (simp add: validate_setup_data_def dict_get_def)

lemma validate_groq_without_key:
  "validate_setup_data [(''llm_provider'', PStr ''groq'')]
     = Inr (False, Some ''Groq API key is required when using Groq'')"
  by (simp add: validate_setup_data_def dict_get_def)

lemma validate_bad_openai_format:
  "validate_setup_data
     [(''llm_provider'', PStr ''groq''), (''groq_api_key'', PStr ''gsk_abc''),
      (''openai_api_key'', PStr ''bad'')]
     = Inr (False, Some ''OpenAI API key format appears invalid (should start with 'sk-')'')"
  by (simp add: validate_setup_data_def dict_get_def bad_format_def)

lemma validate_openai_ok:
  "validate_setup_data
     [(''llm_provider'', PStr ''openai''), (''openai_api_key'', PStr ''sk-valid123'')]
     = Inr (True, None)"
  by (simp add: validate_setup_data_def dict_get_def bad_format_def)

text \<open>Where two rules fail the earlier one decides: here the third, before the fourth.\<close>

lemma validate_openai_without_key:
  "validate_setup_data [(''llm_provider'', PStr ''openai'')]
     = Inr (False, Some ''OpenAI API key is required when using OpenAI'')"
  by (simp add: validate_setup_data_def dict_get_def)

text \<open>
  C5. The first failing rule does not determine the result on every input mapping. On
  \<^verbatim>\<open>{"llm_provider": "openai", "openai_api_key": 5}\<close>, which the route
  \<^verbatim>\<open>/setup\<close> can receive as JSON, the first four rules pass and the fifth fails (the
  key does not start with \<^verbatim>\<open>sk-\<close>), so the rules give the OpenAI format message;
  the validator raises \<^verbatim>\<open>AttributeError\<close> instead of returning a verdict.
\<close>

theorem validate_setup_data_non_string_key_raises:
  "validate_setup_data [(''llm_provider'', PStr ''openai''), (''openai_api_key'', PInt 5)]
     = Inl AttributeError
   \<and> first_failure rules [(''llm_provider'', PStr ''openai''), (''openai_api_key'', PInt 5)]
     = (False, Some ''OpenAI API key format appears invalid (should start with 'sk-')'')"
  by (simp add: validate_setup_data_def dict_get_def bad_format_def rules_def str_prefix_def)

text \<open>
  Two dictionaries that hold the same value under every key, in whatever order they
  were built, get the same result.
\<close>

lemma dict_get_cong: "map_of d1 = map_of d2 \<Longrightarrow> dict_get d1 = dict_get d2"
  by (rule ext) (simp add: dict_get_def)

lemma validate_setup_data_same_content:
  "map_of d1 = map_of d2 \<Longrightarrow> validate_setup_data d1 = validate_setup_data d2"
proof -
  assume "map_of d1 = map_of d2"
  then have dg: "dict_get d1 = dict_get d2" by (rule dict_get_cong)
  have bf: "bad_format d1 = bad_format d2"
    by (intro ext) (simp add: bad_format_def dg)
  show ?thesis
    unfolding validate_setup_data_def dg bf by (rule refl)
qed

section \<open>Properties of the manager\<close>

text \<open>
  C10. When \<^verbatim>\<open>is_configured()\<close> is false, also with only one of the two files
  present, \<^verbatim>\<open>load_config()\<close> returns \<^verbatim>\<open>None\<close> and leaves the filesystem and
  the manager as they were: no file is created, changed or removed, and no key is
  generated.
\<close>

theorem load_config_unconfigured_frame:
  "is_configured mgr w = Inr False \<Longrightarrow> load_config L mgr w = (Inr None, mgr, w)"
  by (simp add: load_config_def)

theorem load_config_unconfigured_frame_witness:
  "is_configured demo_manager partial_world = Inr False
   \<and> path_exists partial_world (config_file demo_manager) = Inr True
   \<and> load_config demo_libs demo_manager partial_world = (Inr None, demo_manager, partial_world)"
proof -
  have h: "is_configured demo_manager partial_world = Inr False"
    by (simp add: is_configured_def path_exists_def demo_defs)
  have e: "path_exists partial_world (config_file demo_manager) = Inr True"
    by (simp add: path_exists_def demo_defs)
  from h e load_config_unconfigured_frame [OF h, of demo_libs] show ?thesis by blast
qed

text \<open>
  C2. \<^verbatim>\<open>load_config()\<close> returns \<^verbatim>\<open>None\<close>, not an error, whenever
  \<^verbatim>\<open>is_configured()\<close> is false. When it is true and the stored blob does not decrypt
  or does not parse, \<^verbatim>\<open>load_config()\<close> raises \<^verbatim>\<open>ValueError\<close>, which is not
  the \<^verbatim>\<open>None\<close> of "not configured". Whatever mapping it returns is the one the blob
  decrypts and parses to, never another.
\<close>

theorem load_config_failure_kinds:
  "(is_configured mgr w = Inr False \<longrightarrow> fst (load_config L mgr w) = Inr None)
   \<and> (is_configured mgr w = Inr True \<and> stored_config L mgr w = None
        \<longrightarrow> fst (load_config L mgr w) = Inl ValueError)
   \<and> (\<forall>c. fst (load_config L mgr w) = Inr (Some c) \<longrightarrow> stored_config L mgr w = Some c)
   \<and> (Inl ValueError :: error + pyval option) \<noteq> Inr None"
  by (auto simp: mgr_defs stored_config_def key_in_use_def Let_def
      split: option.splits sum.splits if_splits prod.splits)

theorem load_config_failure_kinds_witness:
  "(is_configured demo_manager empty_world = Inr False
      \<and> fst (load_config demo_libs demo_manager empty_world) = Inr None)
   \<and> (is_configured demo_manager tampered_world = Inr True
      \<and> stored_config demo_libs demo_manager tampered_world = None
      \<and> fst (load_config demo_libs demo_manager tampered_world) = Inl ValueError)
   \<and> (fst (load_config demo_libs demo_manager saved_world) = Inr (Some (PDict [(''a'', PInt 1)]))
      \<and> stored_config demo_libs demo_manager saved_world = Some (PDict [(''a'', PInt 1)]))"
proof -
  have h1: "is_configured demo_manager empty_world = Inr False"
    by (simp add: is_configured_def path_exists_def demo_defs)
  have h2: "is_configured demo_manager tampered_world = Inr True
      \<and> stored_config demo_libs demo_manager tampered_world = None"
    by (simp add: is_configured_def path_exists_def stored_config_def key_in_use_def demo_defs)
  have h3: "fst (load_config demo_libs demo_manager saved_world) = Inr (Some (PDict [(''a'', PInt 1)]))"
    by (simp add: mgr_defs demo_defs)
  from h1 load_config_failure_kinds [of demo_manager empty_world demo_libs]
  have c1: "fst (load_config demo_libs demo_manager empty_world) = Inr None" by blast
  from h2 load_config_failure_kinds [of demo_manager tampered_world demo_libs]
  have c2: "fst (load_config demo_libs demo_manager tampered_world) = Inl ValueError" by blast
  from h3 load_config_failure_kinds [of demo_manager saved_world demo_libs]
  have c3: "stored_config demo_libs demo_manager saved_world = Some (PDict [(''a'', PInt 1)])"
    by blast
  from h1 h2 h3 c1 c2 c3 show ?thesis by blast
qed

text \<open>
  C3. When \<^verbatim>\<open>delete_config()\<close> returns, neither the config file nor the key file
  exists, every other file is as before, \<^verbatim>\<open>is_configured()\<close> is false and
  \<^verbatim>\<open>load_config()\<close> returns \<^verbatim>\<open>None\<close> rather than raising. It returns
  whenever the system refuses neither to look up nor to unlink the two paths, whether or
  not the files exist; with both absent it changes nothing.
\<close>

theorem delete_config_resets:
  "(fst (delete_config mgr w) = Inr () \<longrightarrow>
      (case delete_config mgr w of (r, mgr', w') \<Rightarrow>
         files w' (config_file mgr) = None \<and> files w' (master_key_file mgr) = None
         \<and> is_configured mgr' w' = Inr False
         \<and> fst (load_config L mgr' w') = Inr None
         \<and> (\<forall>p. p \<noteq> config_file mgr \<and> p \<noteq> master_key_file mgr \<longrightarrow> files w' p = files w p)))
   \<and> (config_file mgr \<notin> no_stat w \<and> master_key_file mgr \<notin> no_stat w
       \<and> config_file mgr \<notin> no_unlink w \<and> master_key_file mgr \<notin> no_unlink w
        \<longrightarrow> fst (delete_config mgr w) = Inr ())
   \<and> (path_exists w (config_file mgr) = Inr False
       \<and> path_exists w (master_key_file mgr) = Inr False
        \<longrightarrow> delete_config mgr w = (Inr (), mgr, w))"
  by (auto simp: mgr_defs Let_def split: option.splits sum.splits if_splits prod.splits)

theorem delete_config_resets_witness:
  "fst (delete_config demo_manager saved_world) = Inr ()
   \<and> (case delete_config demo_manager saved_world of (r, mgr', w') \<Rightarrow>
         files w' ''config.encrypted'' = None \<and> files w' ''.master_key'' = None
         \<and> is_configured mgr' w' = Inr False
         \<and> fst (load_config demo_libs mgr' w') = Inr None)
   \<and> ''config.encrypted'' \<notin> no_stat empty_world \<and> ''.master_key'' \<notin> no_stat empty_world
   \<and> ''config.encrypted'' \<notin> no_unlink empty_world \<and> ''.master_key'' \<notin> no_unlink empty_world
   \<and> path_exists empty_world ''config.encrypted'' = Inr False
   \<and> path_exists empty_world ''.master_key'' = Inr False
   \<and> delete_config demo_manager empty_world = (Inr (), demo_manager, empty_world)"
  using delete_config_resets [of demo_manager saved_world demo_libs]
    delete_config_resets [of demo_manager empty_world demo_libs]
  by (simp add: mgr_defs demo_defs)




section \<open>The cached cipher after a reset\<close>

text \<open>
  \<^verbatim>\<open>delete_config\<close> removes the key file and leaves \<^verbatim>\<open>_cipher\<close> set, so the
  next \<^verbatim>\<open>_get_cipher\<close> does not reach \<^verbatim>\<open>_get_or_create_master_key\<close>.
\<close>

lemma after_reset_state:
  "after_reset = (Inr (), demo_manager\<lparr>cipher := Some ''key''\<rparr>, empty_world\<lparr>entropy := 2\<rparr>)"
  by (simp add: after_reset_def mgr_defs demo_defs Let_def numeral_2_eq_2)

lemma stale_cache_not_configured:
  "cipher mgr = Some k \<Longrightarrow> config_file mgr \<noteq> master_key_file mgr \<Longrightarrow>
   path_exists w (master_key_file mgr) = Inr False \<Longrightarrow>
   save_config L mgr w c = (r, mgr', w') \<Longrightarrow>
   is_configured mgr' w' \<noteq> Inr True \<and> (r = Inr () \<longrightarrow> is_configured mgr' w' = Inr False)"
  by (auto simp: mgr_defs Let_def split: option.splits sum.splits if_splits prod.splits)

text \<open>
  C9. After a reset no key file exists; \<^verbatim>\<open>save_config\<close> then returns without error,
  writes the config file, creates no key file, and \<^verbatim>\<open>is_configured()\<close> is false,
  where the claim has it true after every successful save.
\<close>

theorem save_after_reset_not_configured:
  "(case after_reset of (r, mgr, w) \<Rightarrow>
      r = Inr () \<and> path_exists w (master_key_file mgr) = Inr False \<and>
      (case save_config demo_libs mgr w (PDict [(''b'', PInt 2)]) of (r', mgr', w') \<Rightarrow>
         r' = Inr ()
         \<and> files w' (config_file mgr') = Some ''key|{b: 2}''
         \<and> files w' (master_key_file mgr') = None
         \<and> is_configured mgr' w' = Inr False))"
  by (simp add: after_reset_state) (simp add: mgr_defs demo_defs Let_def)

text \<open>
  C1. After a reset, \<^verbatim>\<open>save_config(m)\<close> returns without error and
  \<^verbatim>\<open>load_config()\<close> on the same manager then returns \<^verbatim>\<open>None\<close>, where the
  claim has it return \<open>m\<close>.
\<close>

theorem save_then_load_after_reset_none:
  "(case after_reset of (r, mgr, w) \<Rightarrow>
      (case save_config demo_libs mgr w (PDict [(''b'', PInt 2)]) of (r', mgr', w') \<Rightarrow>
         r' = Inr () \<and> load_config demo_libs mgr' w' = (Inr None, mgr', w')))"
  by (simp add: after_reset_state) (simp add: mgr_defs demo_defs Let_def)

text \<open>
  C8. After a reset and a \<^verbatim>\<open>save_config(m)\<close> by the first instance, a second
  instance newly constructed on the same two paths gets \<^verbatim>\<open>None\<close> from
  \<^verbatim>\<open>load_config()\<close>, where the claim has it obtain \<open>m\<close>.
\<close>

theorem fresh_instance_after_reset_none:
  "(case after_reset of (r, mgr, w) \<Rightarrow>
      (case save_config demo_libs mgr w (PDict [(''b'', PInt 2)]) of (r', mgr', w') \<Rightarrow>
         r' = Inr ()
         \<and> fst (load_config demo_libs
                  (SecureConfigManager (config_file mgr') (master_key_file mgr')) w') = Inr None))"
  by (simp add: after_reset_state) (simp add: mgr_defs demo_defs Let_def)

text \<open>
  C4. After a reset, \<^verbatim>\<open>update_config({"a": 1})\<close> followed by
  \<^verbatim>\<open>update_config({"b": 2})\<close> both return without error and the stored mapping is
  \<^verbatim>\<open>{"b": 2}\<close> alone, where the claim has it contain \<^verbatim>\<open>a: 1\<close> as well.
\<close>

theorem update_twice_after_reset_drops_first:
  "(case after_reset of (r, mgr, w) \<Rightarrow>
      (case update_config demo_libs mgr w [(''a'', PInt 1)] of (r1, mgr1, w1) \<Rightarrow>
        (case update_config demo_libs mgr1 w1 [(''b'', PInt 2)] of (r2, mgr2, w2) \<Rightarrow>
           r1 = Inr () \<and> r2 = Inr ()
           \<and> files w2 (config_file mgr2) = Some ''key|{b: 2}''
           \<and> stored_config demo_libs mgr2 w2 = Some (PDict [(''b'', PInt 2)]))))"
  by (simp add: after_reset_state)
     (simp add: mgr_defs demo_defs Let_def dict_update_def stored_config_def key_in_use_def)

section \<open>The manager in step with its key file\<close>

text \<open>
  The same properties hold on every manager whose cache is empty or whose key file
  exists, for every library instance that decrypts its own tokens.
\<close>

lemma save_config_configures:
  "cipher mgr = None \<or> path_exists w (master_key_file mgr) = Inr True \<Longrightarrow>
   save_config L mgr w c = (Inr u, mgr', w') \<Longrightarrow> is_configured mgr' w' = Inr True"
  by (auto simp: mgr_defs Let_def split: option.splits sum.splits if_splits prod.splits)

lemma save_then_load:
  assumes "cipher mgr = None \<or> path_exists w (master_key_file mgr) = Inr True"
    and "cache_valid L mgr" and "fernet_correct L"
    and "json_loads L (json_dumps L m) = Some m"
    and "config_file mgr \<notin> no_read w"
    and "save_config L mgr w m = (Inr u, mgr', w')"
  shows "load_config L mgr' w' = (Inr (Some m), mgr', w')"
  using assms
  by (auto simp: mgr_defs Let_def fernet_correct_def cache_valid_def
      split: option.splits sum.splits if_splits prod.splits)

lemma save_then_fresh_load:
  assumes "case cipher mgr of None \<Rightarrow> True | Some k \<Rightarrow> files w (master_key_file mgr) = Some k"
    and "cache_valid L mgr" and "fernet_correct L"
    and "json_loads L (json_dumps L m) = Some m"
    and "config_file mgr \<noteq> master_key_file mgr"
    and "master_key_file mgr \<notin> no_stat w"
    and "config_file mgr \<notin> no_read w" and "master_key_file mgr \<notin> no_read w"
    and "save_config L mgr w m = (Inr u, mgr', w')"
  shows "fst (load_config L (SecureConfigManager (config_file mgr) (master_key_file mgr)) w')
           = Inr (Some m)"
  using assms
  by (auto simp: mgr_defs Let_def fernet_correct_def cache_valid_def SecureConfigManager_def
      split: option.splits sum.splits if_splits prod.splits)

lemma save_config_keeps:
  "save_config L mgr w c = (r, mgr', w') \<Longrightarrow>
   no_read w' = no_read w \<and> config_file mgr' = config_file mgr
   \<and> master_key_file mgr' = master_key_file mgr
   \<and> (cache_valid L mgr \<longrightarrow> cache_valid L mgr')"
  by (auto simp: mgr_defs Let_def cache_valid_def
      split: option.splits sum.splits if_splits prod.splits)

lemma update_config_unconfigured:
  "is_configured mgr w = Inr False \<Longrightarrow>
   update_config L mgr w u = save_config L mgr w (PDict (dict_update [] u))"
  by (simp add: update_config_def load_config_def)

lemma update_config_loaded:
  "load_config L mgr w = (Inr (Some (PDict d)), mgr1, w1) \<Longrightarrow>
   update_config L mgr w u = save_config L mgr1 w1 (PDict (dict_update d u))"
  by (cases d) (simp_all add: update_config_def)

text \<open>On dictionaries the update is the map override, the updates winning.\<close>

lemma map_of_dict_update:
  "distinct (map fst u) \<Longrightarrow> map_of (dict_update d u) = map_of d ++ map_of u"
proof (induction u arbitrary: d)
  case Nil
  then show ?case by (simp add: dict_update_def)
next
  case (Cons a u)
  obtain k v where a: "a = (k, v)" by (cases a)
  from Cons.prems a have k: "k \<notin> fst ` set u" and d: "distinct (map fst u)" by auto
  have "map_of (dict_update d (a # u)) = map_of (dict_update (AList.update k v d) u)"
    by (simp add: dict_update_def a)
  also have "\<dots> = map_of (AList.update k v d) ++ map_of u"
    using Cons.IH [OF d] .
  also have "\<dots> = map_of d ++ map_of (a # u)"
  proof -
    from k have n: "map_of u k = None" by (simp add: map_of_eq_None_iff)
    show ?thesis
      by (rule ext) (simp add: a update_conv' map_add_def n split: option.splits)
  qed
  finally show ?case .
qed

lemma update_twice:
  assumes "is_configured mgr w = Inr False"
    and "cipher mgr = None \<or> path_exists w (master_key_file mgr) = Inr True"
    and "cache_valid L mgr" and "fernet_correct L"
    and "config_file mgr \<notin> no_read w"
    and "json_loads L (json_dumps L (PDict (dict_update [] u1))) = Some (PDict (dict_update [] u1))"
    and "json_loads L (json_dumps L (PDict (dict_update (dict_update [] u1) u2)))
           = Some (PDict (dict_update (dict_update [] u1) u2))"
    and "update_config L mgr w u1 = (Inr x1, mgr1, w1)"
    and "update_config L mgr1 w1 u2 = (Inr x2, mgr2, w2)"
  shows "load_config L mgr2 w2
           = (Inr (Some (PDict (dict_update (dict_update [] u1) u2))), mgr2, w2)"
proof -
  from assms(1,8) have s1: "save_config L mgr w (PDict (dict_update [] u1)) = (Inr x1, mgr1, w1)"
    by (simp add: update_config_unconfigured)
  from save_then_load [OF assms(2,3,4,6,5) s1]
  have l1: "load_config L mgr1 w1 = (Inr (Some (PDict (dict_update [] u1))), mgr1, w1)" .
  from update_config_loaded [OF l1] assms(9)
  have s2: "save_config L mgr1 w1 (PDict (dict_update (dict_update [] u1) u2)) = (Inr x2, mgr2, w2)"
    by simp
  from save_config_configures [OF assms(2) s1]
  have k1: "cipher mgr1 = None \<or> path_exists w1 (master_key_file mgr1) = Inr True"
    by (auto simp: is_configured_def split: sum.splits bool.splits)
  from save_config_keeps [OF s1] assms(3,5)
  have v1: "cache_valid L mgr1" and r1: "config_file mgr1 \<notin> no_read w1" by simp_all
  from save_then_load [OF k1 v1 assms(4,7) r1 s2] show ?thesis .
qed

text \<open>The same calls on a newly constructed manager, evaluated.\<close>

lemma fernet_correct_demo: "fernet_correct demo_libs"
  by (simp add: fernet_correct_def demo_libs_def)

lemma new_manager_round_trip:
  "(case save_config demo_libs demo_manager empty_world (PDict [(''a'', PInt 1)]) of
      (r, mgr, w) \<Rightarrow>
        r = Inr () \<and> is_configured mgr w = Inr True
        \<and> fst (load_config demo_libs mgr w) = Inr (Some (PDict [(''a'', PInt 1)]))
        \<and> fst (load_config demo_libs
                 (SecureConfigManager (config_file mgr) (master_key_file mgr)) w)
            = Inr (Some (PDict [(''a'', PInt 1)])))"
  by (simp add: mgr_defs demo_defs Let_def)

lemma new_manager_update_twice:
  "(case update_config demo_libs demo_manager empty_world [(''a'', PInt 1)] of
      (r1, mgr1, w1) \<Rightarrow>
        (case update_config demo_libs mgr1 w1 [(''b'', PInt 2)] of
           (r2, mgr2, w2) \<Rightarrow>
             r1 = Inr () \<and> r2 = Inr ()
             \<and> fst (load_config demo_libs mgr2 w2)
                 = Inr (Some (PDict [(''a'', PInt 1), (''b'', PInt 2)]))))"
  by (simp add: mgr_defs demo_defs Let_def dict_update_def)

end
